theory Spec2Isabelle
  imports Main
begin

section \<open>The bootstrap launcher of the Linux templates\<close>

text \<open>
  The two files \<^verbatim>\<open>main.c\<close> (the Flatpak template and the system-package template) are
  straight-line C programs against the CPython embedding API. The model below keeps the
  statements of \<^verbatim>\<open>main\<close> in their order. Everything the program does to the outside is
  recorded as a list of actions, and the way the process ends as a value of type
  \<open>halt\<close>; whatever the program reads from the outside (the environment variable, the
  statuses the API calls return, what the application module does) is a field of the
  record \<open>world\<close>.
\<close>

subsection \<open>Values of the embedding API\<close>

text \<open>
  \<^verbatim>\<open>PyStatus\<close>: success, an error with a message, or a request to exit with a code.
  \<^verbatim>\<open>PyStatus_Exception\<close> is true for the last two.
\<close>

datatype PyStatus = PyStatus_Ok | PyStatus_Error string | PyStatus_Exit int

fun PyStatus_Exception :: "PyStatus \<Rightarrow> bool" where
  "PyStatus_Exception PyStatus_Ok = False"
| "PyStatus_Exception (PyStatus_Error msg) = True"
| "PyStatus_Exception (PyStatus_Exit c) = True"

text \<open>
  The Python objects that can sit in the \<^verbatim>\<open>code\<close> attribute of an exit request:
  \<^verbatim>\<open>None\<close>, an integer (unbounded, as Python's are; \<^verbatim>\<open>True\<close> and \<^verbatim>\<open>False\<close> are the
  integers 1 and 0), or any other object that has no conversion to an integer, kept as
  the text that \<^verbatim>\<open>str()\<close> gives for it.
\<close>

datatype PyObject = Py_None | PyLong int | PyOther string

text \<open>
  \<^verbatim>\<open>PyLong_AsLong\<close> returns a C \<^verbatim>\<open>long\<close> (64 bits on the Linux targets of the
  templates). On an object that is no integer, and on an integer outside the range of
  \<^verbatim>\<open>long\<close>, it sets an error and returns \<open>-1\<close>.
\<close>

definition LONG_MIN :: int where "LONG_MIN = - (2 ^ 63)"
definition LONG_MAX :: int where "LONG_MAX = 2 ^ 63 - 1"
definition INT_MIN :: int where "INT_MIN = - (2 ^ 31)"
definition INT_MAX :: int where "INT_MAX = 2 ^ 31 - 1"

fun PyLong_AsLong :: "PyObject \<Rightarrow> int" where
  "PyLong_AsLong (PyLong n) = (if LONG_MIN \<le> n \<and> n \<le> LONG_MAX then n else - 1)"
| "PyLong_AsLong Py_None = - 1"
| "PyLong_AsLong (PyOther s) = - 1"

text \<open>The conversion \<^verbatim>\<open>(int)\<close> of a \<^verbatim>\<open>long\<close>: the low 32 bits, read as two's complement.\<close>

definition cast_int :: "int \<Rightarrow> int" where
  "cast_int x = (x + 2 ^ 31) mod 2 ^ 32 - 2 ^ 31"

text \<open>
  The error state that \<^verbatim>\<open>PyErr_Fetch\<close> and \<^verbatim>\<open>PyErr_NormalizeException\<close> hand to the
  launcher. \<open>SystemExit c\<close> is an exception for which
  \<^verbatim>\<open>PyErr_GivenExceptionMatches(exc_value, PyExc_SystemExit)\<close> holds, with \<open>c\<close> what
  \<^verbatim>\<open>PyObject_GetAttrString(exc_value, "code")\<close> returns (\<open>None\<close> for \<^verbatim>\<open>NULL\<close>).
  \<open>exc_traceback\<close> is \<open>None\<close> for a \<^verbatim>\<open>NULL\<close> traceback.
\<close>

datatype py_exception = SystemExit "PyObject option" | OtherError

record error_state =
  exc_value :: py_exception
  exc_str :: string
  exc_traceback :: "string option"

text \<open>What \<^verbatim>\<open>PyObject_Call\<close> returns: an object, or \<^verbatim>\<open>NULL\<close> with the error state set.\<close>

datatype call_result = Returned | Raised error_state

subsection \<open>Actions and ways to end\<close>

datatype printf_arg = Arg_s string | Arg_d int

record PyPreConfig =
  pre_isolated :: int
  utf8_mode :: int

record PyConfig =
  isolated :: int
  buffered_stdio :: int
  write_bytecode :: int
  module_search_paths_set :: int
  site_import :: int
  home :: "string option"
  run_module :: "string option"
  module_search_paths :: "string list"
  config_argv :: "string list"

datatype action =
    Printf string "printf_arg list"
  | Fflush_stdout
  | Fflush_stderr
  | Stderr string
  | Call_Py_PreInitialize PyPreConfig
  | Call_PyConfig_Read
  | Call_Py_InitializeFromConfig PyConfig
  | Call_PyConfig_Clear
  | Call_PyObject_Call string int
  | Call_PyErr_Restore
  | Call_PyErr_Print
  | Call_Py_Finalize

text \<open>
  The process ends when \<^verbatim>\<open>main\<close> returns, when the launcher calls \<^verbatim>\<open>exit\<close>, when it
  calls \<^verbatim>\<open>Py_ExitStatusException\<close>, or inside \<^verbatim>\<open>PyErr_Print\<close> (see below).
\<close>

datatype halt =
    Return int
  | Exit int
  | ExitStatusException PyStatus
  | Exit_in_PyErr_Print int

text \<open>
  The status the process hands to the operating system, as the C \<^verbatim>\<open>int\<close> it is
  before the system keeps its low eight bits. \<^verbatim>\<open>Py_ExitStatusException\<close> exits with
  the code of an exit status and with \<open>1\<close> after printing the message of an error status.
\<close>

fun exit_code :: "halt \<Rightarrow> int" where
  "exit_code (Return r) = r"
| "exit_code (Exit r) = r"
| "exit_code (ExitStatusException (PyStatus_Exit c)) = c"
| "exit_code (ExitStatusException st) = 1"
| "exit_code (Exit_in_PyErr_Print r) = r"

text \<open>
  \<^verbatim>\<open>PyErr_Print\<close>, on the restored error state. The source says of it: "In case of
  SystemExit, this will call exit()". The runtime then exits with the status that
  Python documents for \<^verbatim>\<open>SystemExit\<close>: \<open>0\<close> for \<^verbatim>\<open>None\<close>, the integer for an integer,
  and \<open>1\<close> for any other object, which is printed to standard error first. For any
  other exception it writes the traceback and the exception to standard error and
  returns. The result is what is written, and the exit status if the process ends here.
\<close>

fun PyErr_Print :: "error_state \<Rightarrow> action list \<times> int option" where
  "PyErr_Print e =
     (case exc_value e of
        SystemExit None \<Rightarrow> ([Stderr (exc_str e)], Some 1)
      | SystemExit (Some Py_None) \<Rightarrow> ([], Some 0)
      | SystemExit (Some (PyLong n)) \<Rightarrow> ([], Some (cast_int (PyLong_AsLong (PyLong n))))
      | SystemExit (Some (PyOther s)) \<Rightarrow> ([Stderr s], Some 1)
      | OtherError \<Rightarrow>
          ([Stderr ((case exc_traceback e of None \<Rightarrow> [] | Some tb \<Rightarrow> tb) @ exc_str e)], None))"

subsection \<open>Outcome classification (lines 204 to 245 of both files)\<close>

text \<open>
  The statements after \<^verbatim>\<open>result = PyObject_Call(module_attr, method_args, NULL)\<close>,
  once for each file. \<open>ret\<close> starts at \<open>0\<close>.
\<close>

definition flatpak_classify :: "call_result \<Rightarrow> action list \<times> halt" where
  "flatpak_classify result =
     (case result of
        Returned \<Rightarrow> ([Call_Py_Finalize], Return 0)
      | Raised e \<Rightarrow>
          if exc_traceback e = None then ([], Exit (- 5))
          else
            let (out, ret) =
              (case exc_value e of
                 SystemExit systemExit_code \<Rightarrow>
                   (case systemExit_code of
                      None \<Rightarrow> ([Printf ''Could not determine exit code\<newline>'' []], - 10)
                    | Some c \<Rightarrow> ([], cast_int (PyLong_AsLong c)))
               | OtherError \<Rightarrow> ([], - 6))
            in if ret \<noteq> 0 then
                 (let (printed, exits) = PyErr_Print e
                  in (out @ [Printf ''Application quit abnormally (Exit code %d)!\<newline>'' [Arg_d ret],
                             Call_PyErr_Restore, Call_PyErr_Print] @ printed,
                      case exits of Some c \<Rightarrow> Exit_in_PyErr_Print c | None \<Rightarrow> Exit ret))
               else (out @ [Call_Py_Finalize], Return ret))"

definition system_classify :: "call_result \<Rightarrow> action list \<times> halt" where
  "system_classify result =
     (case result of
        Returned \<Rightarrow> ([Call_Py_Finalize], Return 0)
      | Raised e \<Rightarrow>
          if exc_traceback e = None then ([], Exit (- 5))
          else
            let (out, ret) =
              (case exc_value e of
                 SystemExit systemExit_code \<Rightarrow>
                   (case systemExit_code of
                      None \<Rightarrow> ([Printf ''Could not determine exit code\<newline>'' []], - 10)
                    | Some c \<Rightarrow> ([], cast_int (PyLong_AsLong c)))
               | OtherError \<Rightarrow> ([], - 6))
            in if ret \<noteq> 0 then
                 (let (printed, exits) = PyErr_Print e
                  in (out @ [Printf ''Application quit abnormally (Exit code %d)!\<newline>'' [Arg_d ret],
                             Call_PyErr_Restore, Call_PyErr_Print] @ printed,
                      case exits of Some c \<Rightarrow> Exit_in_PyErr_Print c | None \<Rightarrow> Exit ret))
               else (out @ [Call_Py_Finalize], Return ret))"


subsection \<open>What the launcher reads from outside\<close>

text \<open>
  The API calls whose \<^verbatim>\<open>PyStatus\<close> the launcher checks, and the four objects it needs
  before it can call the application. An append to the search path is named by the path
  it appends.
\<close>

datatype config_step =
    PreInitialize
  | SetHome
  | SetRunModule
  | ReadConfig
  | AppendPath string
  | SetArgv
  | InitializeFromConfig

datatype setup_step = ImportRunpy | GetRunModuleAsMain | ModuleNameFromString | BuildArgs

record world =
  getenv_BRIEFCASE_MAIN_MODULE :: "string option"
  argv :: "string list"
  realpath_proc_self_exe :: "string option"
  api_status :: "config_step \<Rightarrow> PyStatus"
  created :: "setup_step \<Rightarrow> bool"
  run_module_as_main :: "string \<Rightarrow> call_result"

text \<open>The values that the packaging tool substitutes into the template.\<close>

record cookiecutter =
  module_name_ck :: string
  python_version :: string
  lib_dir :: string
  app_name :: string

text \<open>
  The two template expressions over the Python version,
  \<^verbatim>\<open>''.join(cookiecutter.python_version.split('.')[:2])\<close> and the same with \<^verbatim>\<open>'.'\<close>:
  Python's \<^verbatim>\<open>split\<close> on a separator and \<^verbatim>\<open>join\<close>.
\<close>

fun split :: "char \<Rightarrow> string \<Rightarrow> string list" where
  "split sep [] = [[]]"
| "split sep (c # cs) =
     (if c = sep then [] # split sep cs
      else (case split sep cs of [] \<Rightarrow> [[c]] | w # ws \<Rightarrow> (c # w) # ws))"

fun join :: "string \<Rightarrow> string list \<Rightarrow> string" where
  "join sep [] = []"
| "join sep [w] = w"
| "join sep (w # v # ws) = w @ sep @ join sep (v # ws)"

definition version_tag :: "string \<Rightarrow> cookiecutter \<Rightarrow> string" where
  "version_tag sep ck = join sep (take 2 (split CHR ''.'' (python_version ck)))"

text \<open>
  \<^verbatim>\<open>PyPreConfig_InitIsolatedConfig\<close> and \<^verbatim>\<open>PyConfig_InitIsolatedConfig\<close>, on the fields
  of the model, with the defaults that the API documents for the isolated configuration.
\<close>

definition PyPreConfig_InitIsolatedConfig :: PyPreConfig where
  "PyPreConfig_InitIsolatedConfig = \<lparr>pre_isolated = 1, utf8_mode = 0\<rparr>"

definition PyConfig_InitIsolatedConfig :: PyConfig where
  "PyConfig_InitIsolatedConfig =
     \<lparr>isolated = 1, buffered_stdio = 1, write_bytecode = 1, module_search_paths_set = 0,
      site_import = 1, home = None, run_module = None, module_search_paths = [],
      config_argv = []\<rparr>"

text \<open>
  \<^verbatim>\<open>Py_ExitStatusException\<close>: prints the message of an error status to standard error,
  then ends the process.
\<close>

fun Py_ExitStatusException :: "PyStatus \<Rightarrow> action list \<times> halt" where
  "Py_ExitStatusException (PyStatus_Error msg) =
     ([Stderr msg], ExitStatusException (PyStatus_Error msg))"
| "Py_ExitStatusException st = ([], ExitStatusException st)"

text \<open>
  The block that follows every checked call:
  \<^verbatim>\<open>PyConfig_Clear(&config); Py_ExitStatusException(status);\<close>
\<close>

definition config_failed :: "action list \<Rightarrow> PyStatus \<Rightarrow> action list \<times> halt" where
  "config_failed log status =
     (let (printed, h) = Py_ExitStatusException status
      in (log @ [Call_PyConfig_Clear] @ printed, h))"

text \<open>
  The block that adds one entry to the search path: print it, append it, check the
  status. \<open>Inl\<close> is the end of the process, \<open>Inr\<close> the log and configuration to go on with.
\<close>

definition add_search_path ::
  "world \<Rightarrow> string \<Rightarrow> action list \<times> PyConfig \<Rightarrow> (action list \<times> halt) + (action list \<times> PyConfig)" where
  "add_search_path w path lc =
     (let (log, config) = lc;
          log = log @ [Printf ''- %s\<newline>'' [Arg_s path]];
          status = api_status w (AppendPath path)
      in if PyStatus_Exception status then Inl (config_failed log status)
         else Inr (log, config\<lparr>module_search_paths := module_search_paths config @ [path]\<rparr>))"

text \<open>Lines 68 to 71 (Flatpak) and 74 to 77 (system): the name of the application module.\<close>

definition flatpak_app_module_name :: "cookiecutter \<Rightarrow> world \<Rightarrow> string" where
  "flatpak_app_module_name ck w =
     (case getenv_BRIEFCASE_MAIN_MODULE w of None \<Rightarrow> module_name_ck ck | Some m \<Rightarrow> m)"

definition system_app_module_name :: "cookiecutter \<Rightarrow> world \<Rightarrow> string" where
  "system_app_module_name ck w =
     (case getenv_BRIEFCASE_MAIN_MODULE w of None \<Rightarrow> module_name_ck ck | Some m \<Rightarrow> m)"

definition separator :: string where
  "separator = replicate 75 CHR ''-'' @ ''\<newline>''"

subsection \<open>The Flatpak launcher\<close>

text \<open>Lines 149 to 245: arguments, initialisation, the call of the application.\<close>

definition flatpak_run :: "world \<Rightarrow> string \<Rightarrow> action list \<times> PyConfig \<Rightarrow> action list \<times> halt" where
  "flatpak_run w app_module_name lc =
     (let (log, config) = lc;
          log = log @ [Printf ''Configure argc/argv...\<newline>'' []];
          status = api_status w SetArgv
      in if PyStatus_Exception status then config_failed log status
      else
        let config = config\<lparr>config_argv := argv w\<rparr>;
            log = log @ [Printf ''Initializing Python runtime...\<newline>'' [],
                         Call_Py_InitializeFromConfig config];
            status = api_status w InitializeFromConfig
        in if PyStatus_Exception status then config_failed log status
        else
          let log = log @ [Printf ''Running app module: %s\<newline>'' [Arg_s app_module_name]]
          in if \<not> created w ImportRunpy then (log, Exit (- 2))
             else if \<not> created w GetRunModuleAsMain then (log, Exit (- 3))
             else if \<not> created w ModuleNameFromString then (log, Exit (- 3))
             else if \<not> created w BuildArgs then (log, Exit (- 4))
             else
               let log = log @ [Printf separator [], Fflush_stdout, Fflush_stderr,
                                Call_PyObject_Call app_module_name 0];
                   (out, h) = flatpak_classify (run_module_as_main w app_module_name)
               in (log @ out, h))"

text \<open>Lines 87 to 147: the search path.\<close>

definition flatpak_paths ::
  "cookiecutter \<Rightarrow> world \<Rightarrow> string \<Rightarrow> action list \<times> PyConfig \<Rightarrow> action list \<times> halt" where
  "flatpak_paths ck w app_module_name lc =
     (let (log, config) = lc;
          log = log @ [Printf ''PYTHONPATH:\<newline>'' []]
      in case add_search_path w (''/app/lib/python'' @ version_tag [] ck @ ''.zip'') (log, config) of
           Inl h \<Rightarrow> h
         | Inr lc \<Rightarrow>
      (case add_search_path w (''/app/lib/python'' @ version_tag ''.'' ck) lc of
           Inl h \<Rightarrow> h
         | Inr lc \<Rightarrow>
      (case add_search_path w (''/app/lib/python'' @ version_tag ''.'' ck @ ''/lib-dynload'') lc of
           Inl h \<Rightarrow> h
         | Inr lc \<Rightarrow>
      (case add_search_path w ''/app/briefcase/app_packages'' lc of
           Inl h \<Rightarrow> h
         | Inr lc \<Rightarrow>
      (case add_search_path w ''/app/briefcase/app'' lc of
           Inl h \<Rightarrow> h
         | Inr lc \<Rightarrow> flatpak_run w app_module_name lc)))))"

text \<open>Lines 28 to 85, and then the rest.\<close>

definition flatpak_main :: "cookiecutter \<Rightarrow> world \<Rightarrow> action list \<times> halt" where
  "flatpak_main ck w =
     (let preconfig = PyPreConfig_InitIsolatedConfig;
          config = PyConfig_InitIsolatedConfig;
          preconfig = preconfig\<lparr>utf8_mode := 1\<rparr>;
          config = config\<lparr>buffered_stdio := 0\<rparr>;
          config = config\<lparr>write_bytecode := 0\<rparr>;
          config = config\<lparr>module_search_paths_set := 1\<rparr>;
          log = [Printf ''Pre-initializing Python runtime...\<newline>'' [],
                 Call_Py_PreInitialize preconfig];
          status = api_status w PreInitialize
      in if PyStatus_Exception status then config_failed log status
      else
        let python_home = ''/app'';
            log = log @ [Printf ''PYTHONHOME: %s\<newline>'' [Arg_s python_home]];
            status = api_status w SetHome
        in if PyStatus_Exception status then config_failed log status
        else
          let config = config\<lparr>home := Some python_home\<rparr>;
              app_module_name = flatpak_app_module_name ck w;
              status = api_status w SetRunModule
          in if PyStatus_Exception status then config_failed log status
          else
            let config = config\<lparr>run_module := Some app_module_name\<rparr>;
                log = log @ [Call_PyConfig_Read];
                status = api_status w ReadConfig
            in if PyStatus_Exception status then config_failed log status
               else flatpak_paths ck w app_module_name (log, config))"



subsection \<open>The system-package launcher\<close>

text \<open>
  \<^verbatim>\<open>dirname\<close> of the C library (glibc), on a string or \<^verbatim>\<open>NULL\<close>. It looks for the last
  slash; if that slash ends the string, the trailing slashes are skipped and the last
  slash before them is taken. The result is the string cut before the run of slashes that
  ends at this slash, \<^verbatim>\<open>"/"\<close> if nothing remains (\<^verbatim>\<open>"//"\<close> if the slash was the second
  character), and \<^verbatim>\<open>"."\<close> if there is no slash.
\<close>

definition strip_slashes :: "string \<Rightarrow> string" where
  "strip_slashes s = rev (dropWhile (\<lambda>c. c = CHR ''/'') (rev s))"

definition before_last_slash :: "string \<Rightarrow> string" where
  "before_last_slash s = rev (tl (dropWhile (\<lambda>c. c \<noteq> CHR ''/'') (rev s)))"

definition dirname :: "string option \<Rightarrow> string" where
  "dirname p =
     (case p of
        None \<Rightarrow> ''.''
      | Some path \<Rightarrow>
          if CHR ''/'' \<notin> set path then ''.''
          else
            let searched =
                  (if 1 < length path \<and> last path = CHR ''/'' \<and> strip_slashes path \<noteq> []
                   then strip_slashes path else path)
            in if CHR ''/'' \<notin> set searched then ''.''
               else
                 let cut = before_last_slash searched
                 in if strip_slashes cut = [] then (if length cut = 1 then ''//'' else ''/'')
                    else strip_slashes cut)"

text \<open>
  Lines 36 to 38: \<^verbatim>\<open>realpath("/proc/self/exe", NULL)\<close>, which the world gives, and
  \<^verbatim>\<open>dirname\<close> twice.
\<close>

definition install_path_of :: "world \<Rightarrow> string" where
  "install_path_of w =
     (let exe_path = realpath_proc_self_exe w;
          bin_path = dirname exe_path;
          install_path = dirname (Some bin_path)
      in install_path)"

text \<open>Lines 150 to 245, the same statements as in the Flatpak file.\<close>

definition system_run :: "world \<Rightarrow> string \<Rightarrow> action list \<times> PyConfig \<Rightarrow> action list \<times> halt" where
  "system_run w app_module_name lc =
     (let (log, config) = lc;
          log = log @ [Printf ''Configure argc/argv...\<newline>'' []];
          status = api_status w SetArgv
      in if PyStatus_Exception status then config_failed log status
      else
        let config = config\<lparr>config_argv := argv w\<rparr>;
            log = log @ [Printf ''Initializing Python runtime...\<newline>'' [],
                         Call_Py_InitializeFromConfig config];
            status = api_status w InitializeFromConfig
        in if PyStatus_Exception status then config_failed log status
        else
          let log = log @ [Printf ''Running app module: %s\<newline>'' [Arg_s app_module_name]]
          in if \<not> created w ImportRunpy then (log, Exit (- 2))
             else if \<not> created w GetRunModuleAsMain then (log, Exit (- 3))
             else if \<not> created w ModuleNameFromString then (log, Exit (- 3))
             else if \<not> created w BuildArgs then (log, Exit (- 4))
             else
               let log = log @ [Printf separator [], Fflush_stdout, Fflush_stderr,
                                Call_PyObject_Call app_module_name 0];
                   (out, h) = system_classify (run_module_as_main w app_module_name)
               in (log @ out, h))"

text \<open>
  Lines 93 to 147: the search path. \<open>PY_TAG\<close> is a macro of \<^verbatim>\<open>pyversion.h\<close>, which
  is generated when the package is built; it is a parameter here.
\<close>

definition system_paths ::
  "string \<Rightarrow> cookiecutter \<Rightarrow> world \<Rightarrow> string \<Rightarrow> string \<Rightarrow> action list \<times> PyConfig
     \<Rightarrow> action list \<times> halt" where
  "system_paths PY_TAG ck w install_path app_module_name lc =
     (let (log, config) = lc;
          log = log @ [Printf ''PYTHONPATH:\<newline>'' []]
      in case add_search_path w (''/usr/'' @ lib_dir ck @ ''/python'' @ PY_TAG) (log, config) of
           Inl h \<Rightarrow> h
         | Inr lc \<Rightarrow>
      (case add_search_path w (''/usr/'' @ lib_dir ck @ ''/python'' @ PY_TAG @ ''/lib-dynload'') lc of
           Inl h \<Rightarrow> h
         | Inr lc \<Rightarrow>
      (case add_search_path w
              (install_path @ ''/'' @ lib_dir ck @ ''/'' @ app_name ck @ ''/app'') lc of
           Inl h \<Rightarrow> h
         | Inr lc \<Rightarrow>
      (case add_search_path w
              (install_path @ ''/'' @ lib_dir ck @ ''/'' @ app_name ck @ ''/app_packages'') lc of
           Inl h \<Rightarrow> h
         | Inr lc \<Rightarrow> system_run w app_module_name lc))))"

text \<open>Lines 34 to 91, and then the rest.\<close>

definition system_main :: "string \<Rightarrow> cookiecutter \<Rightarrow> world \<Rightarrow> action list \<times> halt" where
  "system_main PY_TAG ck w =
     (let install_path = install_path_of w;
          log = [Printf ''Install path: %s\<newline>'' [Arg_s install_path]];
          preconfig = PyPreConfig_InitIsolatedConfig;
          config = PyConfig_InitIsolatedConfig;
          preconfig = preconfig\<lparr>utf8_mode := 1\<rparr>;
          config = config\<lparr>buffered_stdio := 0\<rparr>;
          config = config\<lparr>write_bytecode := 0\<rparr>;
          config = config\<lparr>module_search_paths_set := 1\<rparr>;
          config = config\<lparr>site_import := 0\<rparr>;
          log = log @ [Printf ''Pre-initializing Python runtime...\<newline>'' [],
                       Call_Py_PreInitialize preconfig];
          status = api_status w PreInitialize
      in if PyStatus_Exception status then config_failed log status
      else
        let app_module_name = system_app_module_name ck w;
            status = api_status w SetRunModule
        in if PyStatus_Exception status then config_failed log status
        else
          let config = config\<lparr>run_module := Some app_module_name\<rparr>;
              log = log @ [Call_PyConfig_Read];
              status = api_status w ReadConfig
          in if PyStatus_Exception status then config_failed log status
             else system_paths PY_TAG ck w install_path app_module_name (log, config))"

text \<open>
  Reading a run: the configurations handed to \<^verbatim>\<open>Py_InitializeFromConfig\<close> and to
  \<^verbatim>\<open>Py_PreInitialize\<close>, and the calls of the application module.
\<close>

fun init_configs :: "action list \<Rightarrow> PyConfig list" where
  "init_configs [] = []"
| "init_configs (Call_Py_InitializeFromConfig c # as) = c # init_configs as"
| "init_configs (a # as) = init_configs as"

fun preinit_configs :: "action list \<Rightarrow> PyPreConfig list" where
  "preinit_configs [] = []"
| "preinit_configs (Call_Py_PreInitialize c # as) = c # preinit_configs as"
| "preinit_configs (a # as) = preinit_configs as"



subsection \<open>Runs that reach the application, and example runs\<close>

text \<open>
  A world in which every checked API call succeeds and every object the launcher needs
  is created: the launcher then reaches \<^verbatim>\<open>PyObject_Call\<close>.
\<close>

definition starts_app :: "world \<Rightarrow> bool" where
  "starts_app w \<longleftrightarrow> (\<forall>s. \<not> PyStatus_Exception (api_status w s)) \<and> (\<forall>s. created w s)"

definition example_cookiecutter :: cookiecutter where
  "example_cookiecutter =
     \<lparr>module_name_ck = ''myapp'', python_version = ''3.11.4'', lib_dir = ''lib'',
      app_name = ''myapp''\<rparr>"

definition example_world :: "string option \<Rightarrow> call_result \<Rightarrow> world" where
  "example_world env r =
     \<lparr>getenv_BRIEFCASE_MAIN_MODULE = env, argv = [''myapp''],
      realpath_proc_self_exe = Some ''/usr/bin/myapp'',
      api_status = (\<lambda>s. PyStatus_Ok), created = (\<lambda>s. True),
      run_module_as_main = (\<lambda>m. r)\<rparr>"

text \<open>An exit request with payload \<open>c\<close>, and an error that is no exit request.\<close>

definition exit_request :: "PyObject \<Rightarrow> error_state" where
  "exit_request c =
     \<lparr>exc_value = SystemExit (Some c), exc_str = ''SystemExit'',
      exc_traceback = Some ''Traceback (most recent call last):''\<rparr>"

definition uncaught_error :: error_state where
  "uncaught_error =
     \<lparr>exc_value = OtherError, exc_str = ''ValueError: bad'',
      exc_traceback = Some ''Traceback (most recent call last):''\<rparr>"

text \<open>The actions of a run that follow the call of the application module.\<close>

fun after_call :: "action list \<Rightarrow> action list" where
  "after_call [] = []"
| "after_call (Call_PyObject_Call m i # as) = as"
| "after_call (a # as) = after_call as"

text \<open>
  The results of the call for which the launcher computes \<open>ret = 0\<close>: a normal return,
  and an exit request with a traceback whose payload converts to \<open>0\<close>.
\<close>

fun computes_zero :: "call_result \<Rightarrow> bool" where
  "computes_zero Returned = True"
| "computes_zero (Raised e) =
     (exc_traceback e \<noteq> None \<and>
      (case exc_value e of
         SystemExit (Some c) \<Rightarrow> cast_int (PyLong_AsLong c) = 0
       | _ \<Rightarrow> False))"

text \<open>
  The configuration that each launcher has built when it calls
  \<^verbatim>\<open>Py_InitializeFromConfig\<close>, and the checked calls of the Flatpak launcher in the
  order of the program.
\<close>

definition flatpak_config :: "cookiecutter \<Rightarrow> world \<Rightarrow> PyConfig" where
  "flatpak_config ck w =
     \<lparr>isolated = 1, buffered_stdio = 0, write_bytecode = 0, module_search_paths_set = 1,
      site_import = 1, home = Some ''/app'', run_module = Some (flatpak_app_module_name ck w),
      module_search_paths =
        [''/app/lib/python'' @ version_tag [] ck @ ''.zip'',
         ''/app/lib/python'' @ version_tag ''.'' ck,
         ''/app/lib/python'' @ version_tag ''.'' ck @ ''/lib-dynload'',
         ''/app/briefcase/app_packages'',
         ''/app/briefcase/app''],
      config_argv = argv w\<rparr>"

definition system_config :: "string \<Rightarrow> cookiecutter \<Rightarrow> world \<Rightarrow> PyConfig" where
  "system_config PY_TAG ck w =
     \<lparr>isolated = 1, buffered_stdio = 0, write_bytecode = 0, module_search_paths_set = 1,
      site_import = 0, home = None, run_module = Some (system_app_module_name ck w),
      module_search_paths =
        [''/usr/'' @ lib_dir ck @ ''/python'' @ PY_TAG,
         ''/usr/'' @ lib_dir ck @ ''/python'' @ PY_TAG @ ''/lib-dynload'',
         install_path_of w @ ''/'' @ lib_dir ck @ ''/'' @ app_name ck @ ''/app'',
         install_path_of w @ ''/'' @ lib_dir ck @ ''/'' @ app_name ck @ ''/app_packages''],
      config_argv = argv w\<rparr>"

definition flatpak_config_steps :: "cookiecutter \<Rightarrow> config_step list" where
  "flatpak_config_steps ck =
     [PreInitialize, SetHome, SetRunModule, ReadConfig,
      AppendPath (''/app/lib/python'' @ version_tag [] ck @ ''.zip''),
      AppendPath (''/app/lib/python'' @ version_tag ''.'' ck),
      AppendPath (''/app/lib/python'' @ version_tag ''.'' ck @ ''/lib-dynload''),
      AppendPath ''/app/briefcase/app_packages'',
      AppendPath ''/app/briefcase/app'',
      SetArgv, InitializeFromConfig]"

text \<open>
  The order of the search path in the words of the specification: the standard library
  (archive or unpacked tree), the directory of compiled extensions, the bundled third-party
  packages, the application code.
\<close>

definition documented_order :: "string list \<Rightarrow> string \<Rightarrow> string \<Rightarrow> string \<Rightarrow> string list" where
  "documented_order stdlib extensions packages app = stdlib @ [extensions, packages, app]"

text \<open>
  A canonical absolute path, as \<^verbatim>\<open>realpath\<close> returns it: the root, or a slash before
  each of its components, which are not empty and contain no slash.
\<close>

definition component :: "string \<Rightarrow> bool" where
  "component c \<longleftrightarrow> c \<noteq> [] \<and> CHR ''/'' \<notin> set c"

definition canonical :: "string list \<Rightarrow> string" where
  "canonical cs = (if cs = [] then ''/'' else concat (map (\<lambda>c. CHR ''/'' # c) cs))"

text \<open>Example worlds in which one checked call fails, or one object is not created.\<close>

definition failing_world :: "config_step \<Rightarrow> PyStatus \<Rightarrow> world" where
  "failing_world step st =
     (example_world None Returned)
       \<lparr>api_status := (\<lambda>s. if s = step then st else PyStatus_Ok)\<rparr>"

definition missing_world :: "setup_step \<Rightarrow> world" where
  "missing_world step = (example_world None Returned)\<lparr>created := (\<lambda>s. s \<noteq> step)\<rparr>"

text \<open>
  The end that follows a failed configuration call with status \<open>st\<close>: the configuration
  was cleared, the process ended in \<^verbatim>\<open>Py_ExitStatusException\<close> with \<open>st\<close>, the last
  action is the clearing, or the message of \<open>st\<close> if it is an error, and the application
  module was not called.
\<close>

definition ends_in_config_failure :: "action list \<times> halt \<Rightarrow> PyStatus \<Rightarrow> bool" where
  "ends_in_config_failure r st \<longleftrightarrow>
     snd r = ExitStatusException st \<and>
     Call_PyConfig_Clear \<in> set (fst r) \<and>
     last (fst r) = (case st of PyStatus_Error msg \<Rightarrow> Stderr msg | _ \<Rightarrow> Call_PyConfig_Clear) \<and>
     (\<forall>m i. Call_PyObject_Call m i \<notin> set (fst r))"


section \<open>Properties\<close>

subsection \<open>Auxiliary facts\<close>

lemmas flatpak_defs = flatpak_main_def flatpak_paths_def flatpak_run_def add_search_path_def
lemmas system_defs = system_main_def system_paths_def system_run_def add_search_path_def

lemma starts_app_example: "starts_app (example_world env r)"
  by (simp add: starts_app_def example_world_def)

lemma example_world_sel:
  "run_module_as_main (example_world env r) m = r"
  "getenv_BRIEFCASE_MAIN_MODULE (example_world env r) = env"
  "realpath_proc_self_exe (example_world env r) = Some ''/usr/bin/myapp''"
  by (simp_all add: example_world_def)

lemma exit_request_sel:
  "exc_value (exit_request c) = SystemExit (Some c)"
  "exc_traceback (exit_request c) = Some ''Traceback (most recent call last):''"
  by (simp_all add: exit_request_def)

lemma same_app_module_name: "system_app_module_name ck w = flatpak_app_module_name ck w"
  by (simp add: system_app_module_name_def flatpak_app_module_name_def)

text \<open>
  When everything before it succeeds, the launcher calls the application module and
  then does what the classification says, and nothing else.
\<close>

lemma flatpak_main_invokes:
  assumes "starts_app w"
  shows "snd (flatpak_main ck w) =
           snd (flatpak_classify (run_module_as_main w (flatpak_app_module_name ck w)))"
    and "\<exists>log. fst (flatpak_main ck w) =
           log @ Call_PyObject_Call (flatpak_app_module_name ck w) 0 #
             fst (flatpak_classify (run_module_as_main w (flatpak_app_module_name ck w)))
           \<and> Call_Py_Finalize \<notin> set log"
  using assms
  by (simp_all add: starts_app_def flatpak_defs Let_def split: prod.splits)

lemma system_main_invokes:
  assumes "starts_app w"
  shows "snd (system_main tag ck w) =
           snd (system_classify (run_module_as_main w (system_app_module_name ck w)))"
    and "\<exists>log. fst (system_main tag ck w) =
           log @ Call_PyObject_Call (system_app_module_name ck w) 0 #
             fst (system_classify (run_module_as_main w (system_app_module_name ck w)))
           \<and> Call_Py_Finalize \<notin> set log"
  using assms
  by (simp_all add: starts_app_def system_defs Let_def split: prod.splits)

lemma PyLong_AsLong_int:
  "INT_MIN \<le> n \<Longrightarrow> n \<le> INT_MAX \<Longrightarrow> cast_int (PyLong_AsLong (PyLong n)) = n"
  by (simp add: cast_int_def INT_MIN_def INT_MAX_def LONG_MIN_def LONG_MAX_def)

lemma cast_int_minus_1: "cast_int (- 1) = - 1"
  by (simp add: cast_int_def)

lemma same_classify: "system_classify r = flatpak_classify r"
  by (simp add: system_classify_def flatpak_classify_def)

lemma classify_exit_int:
  assumes "exc_traceback e = Some tb" "exc_value e = SystemExit (Some (PyLong n))"
    "INT_MIN \<le> n" "n \<le> INT_MAX"
  shows "exit_code (snd (flatpak_classify (Raised e))) = n"
  using assms PyLong_AsLong_int [of n]
  by (simp add: flatpak_classify_def)

lemma classify_exit_None:
  assumes "exc_traceback e = Some tb" "exc_value e = SystemExit (Some Py_None)"
  shows "snd (flatpak_classify (Raised e)) = Exit_in_PyErr_Print 0"
  using assms by (simp add: flatpak_classify_def cast_int_minus_1)

lemma classify_exit_other:
  assumes "exc_traceback e = Some tb" "exc_value e = SystemExit (Some (PyOther s))"
  shows "snd (flatpak_classify (Raised e)) = Exit_in_PyErr_Print 1"
  using assms by (simp add: flatpak_classify_def cast_int_minus_1)

lemma classify_uncaught:
  assumes "exc_traceback e = Some tb" "exc_value e = OtherError"
  shows "flatpak_classify (Raised e) =
    ([Printf ''Application quit abnormally (Exit code %d)!\<newline>'' [Arg_d (- 6)],
      Call_PyErr_Restore, Call_PyErr_Print, Stderr (tb @ exc_str e)], Exit (- 6))"
  using assms by (simp add: flatpak_classify_def)

subsection \<open>Exit requests\<close>

text \<open>
  Claim C1, as amended. In every run in which the entry module raises an exit request
  (\<^verbatim>\<open>SystemExit\<close>), in both launchers: if the payload is an integer \<open>n\<close> that fits a C
  \<^verbatim>\<open>int\<close>, the exit code of the process is \<open>n\<close>; if the payload is \<^verbatim>\<open>None\<close>, the
  exit code is \<open>0\<close>; if it is any other object, one without a conversion to an integer,
  the exit code is \<open>1\<close>. An exception
  raised by Python code carries a traceback, which is the third hypothesis.
\<close>

theorem exit_request_code:
  assumes "starts_app w"
    and "run_module_as_main w (flatpak_app_module_name ck w) = Raised e"
    and "exc_traceback e = Some tb"
    and "exc_value e = SystemExit (Some c)"
  shows "(c = PyLong n \<and> INT_MIN \<le> n \<and> n \<le> INT_MAX \<longrightarrow>
            exit_code (snd (flatpak_main ck w)) = n \<and>
            exit_code (snd (system_main tag ck w)) = n) \<and>
         (c = Py_None \<longrightarrow>
            exit_code (snd (flatpak_main ck w)) = 0 \<and>
            exit_code (snd (system_main tag ck w)) = 0) \<and>
         (c = PyOther s \<longrightarrow>
            exit_code (snd (flatpak_main ck w)) = 1 \<and>
            exit_code (snd (system_main tag ck w)) = 1)"
  using assms
  by (auto simp: flatpak_main_invokes(1) system_main_invokes(1) same_app_module_name
      same_classify classify_exit_int classify_exit_None classify_exit_other)

theorem exit_request_code_witness:
  "starts_app (example_world None (Raised (exit_request (PyLong 3)))) \<and>
   exit_code (snd (flatpak_main example_cookiecutter
      (example_world None (Raised (exit_request (PyLong 3)))))) = 3 \<and>
   exit_code (snd (system_main ''3.11'' example_cookiecutter
      (example_world None (Raised (exit_request (PyLong 3)))))) = 3 \<and>
   exit_code (snd (flatpak_main example_cookiecutter
      (example_world None (Raised (exit_request Py_None))))) = 0 \<and>
   exit_code (snd (system_main ''3.11'' example_cookiecutter
      (example_world None (Raised (exit_request (PyOther ''bye'')))))) = 1"
  using exit_request_code [of "example_world None (Raised (exit_request (PyLong 3)))"
      example_cookiecutter "exit_request (PyLong 3)" "''Traceback (most recent call last):''"
      "PyLong 3" 3 "''3.11''"]
    exit_request_code [of "example_world None (Raised (exit_request Py_None))"
      example_cookiecutter "exit_request Py_None" "''Traceback (most recent call last):''"
      "Py_None" 0 "''3.11''"]
    exit_request_code [of "example_world None (Raised (exit_request (PyOther ''bye'')))"
      example_cookiecutter "exit_request (PyOther ''bye'')" "''Traceback (most recent call last):''"
      "PyOther ''bye''" 0 "''3.11''" "''bye''"]
  by (simp add: starts_app_example example_world_sel exit_request_sel INT_MIN_def INT_MAX_def)

text \<open>
  Claim C1 as stated fails. For an exit request without payload (\<^verbatim>\<open>None\<close>) the launcher
  computes \<open>-1\<close>, not its default \<open>-10\<close>, and prints it; the process then ends inside
  \<^verbatim>\<open>PyErr_Print\<close> with \<open>0\<close>, and with \<open>1\<close> when the payload is a string: there is no
  single default. And the integer payload \<open>2 ^ 32\<close> does not fit an \<^verbatim>\<open>int\<close>: the launcher
  computes \<open>0\<close> for it and returns \<open>0\<close>.
\<close>

theorem exit_request_default_counterexample:
  "after_call (fst (flatpak_main example_cookiecutter
      (example_world None (Raised (exit_request Py_None))))) =
     [Printf ''Application quit abnormally (Exit code %d)!\<newline>'' [Arg_d (- 1)],
      Call_PyErr_Restore, Call_PyErr_Print] \<and>
   exit_code (snd (flatpak_main example_cookiecutter
      (example_world None (Raised (exit_request Py_None))))) = 0 \<and>
   exit_code (snd (flatpak_main example_cookiecutter
      (example_world None (Raised (exit_request (PyOther ''bye'')))))) = 1 \<and>
   exit_code (snd (flatpak_main example_cookiecutter
      (example_world None (Raised (exit_request (PyLong (2 ^ 32))))))) \<noteq> 2 ^ 32"
  by (simp add: flatpak_main_invokes(1) starts_app_example example_world_sel exit_request_sel
      flatpak_classify_def cast_int_def LONG_MIN_def LONG_MAX_def)
     (simp add: flatpak_defs Let_def example_world_def exit_request_def flatpak_classify_def
      cast_int_def)


subsection \<open>Projections of a failed configuration step and of the classification\<close>

lemma Py_ExitStatusException_eq:
  "Py_ExitStatusException st =
     ((case st of PyStatus_Error msg \<Rightarrow> [Stderr msg] | _ \<Rightarrow> []), ExitStatusException st)"
  by (cases st) simp_all

lemma config_failed_eq:
  "config_failed log st =
     (log @ Call_PyConfig_Clear # (case st of PyStatus_Error msg \<Rightarrow> [Stderr msg] | _ \<Rightarrow> []),
      ExitStatusException st)"
  by (simp add: config_failed_def Py_ExitStatusException_eq)

lemma init_configs_append: "init_configs (xs @ ys) = init_configs xs @ init_configs ys"
  by (induction xs rule: init_configs.induct) simp_all

lemma preinit_configs_append:
  "preinit_configs (xs @ ys) = preinit_configs xs @ preinit_configs ys"
  by (induction xs rule: preinit_configs.induct) simp_all

lemma config_failed_proj:
  "snd (config_failed log st) = ExitStatusException st"
  "init_configs (fst (config_failed log st)) = init_configs log"
  "preinit_configs (fst (config_failed log st)) = preinit_configs log"
  "Call_Py_Finalize \<in> set (fst (config_failed log st)) \<longleftrightarrow> Call_Py_Finalize \<in> set log"
  "Call_PyObject_Call m i \<in> set (fst (config_failed log st)) \<longleftrightarrow>
     Call_PyObject_Call m i \<in> set log"
  "Call_PyConfig_Clear \<in> set (fst (config_failed log st))"
  "last (fst (config_failed log st)) =
     (case st of PyStatus_Error msg \<Rightarrow> Stderr msg | _ \<Rightarrow> Call_PyConfig_Clear)"
  by (cases st; simp add: config_failed_eq init_configs_append preinit_configs_append)+

lemma classify_configs:
  "init_configs (fst (flatpak_classify r)) = []"
  "preinit_configs (fst (flatpak_classify r)) = []"
  by (cases r; auto simp: flatpak_classify_def Let_def init_configs_append
      preinit_configs_append split: py_exception.splits option.splits PyObject.splits)+

lemma classify_zero:
  "computes_zero r \<Longrightarrow> flatpak_classify r = ([Call_Py_Finalize], Return 0)"
  by (cases r) (auto simp: flatpak_classify_def split: py_exception.splits option.splits)

lemma classify_finalize:
  "Call_Py_Finalize \<in> set (fst (flatpak_classify r)) \<longleftrightarrow> computes_zero r"
  by (cases r) (auto simp: flatpak_classify_def Let_def
      split: py_exception.splits option.splits PyObject.splits)

lemma flatpak_after_call:
  assumes "starts_app w"
  shows "after_call (fst (flatpak_main ck w)) =
           fst (flatpak_classify (run_module_as_main w (flatpak_app_module_name ck w)))"
  using assms
  by (simp add: starts_app_def flatpak_defs Let_def case_prod_beta)

lemma system_after_call:
  assumes "starts_app w"
  shows "after_call (fst (system_main tag ck w)) =
           fst (flatpak_classify (run_module_as_main w (flatpak_app_module_name ck w)))"
  using assms
  by (simp add: starts_app_def system_defs Let_def case_prod_beta same_classify
      same_app_module_name)

lemma flatpak_main_halt:
  assumes "starts_app w"
  shows "snd (flatpak_main ck w) =
           snd (flatpak_classify (run_module_as_main w (flatpak_app_module_name ck w)))"
  using assms by (rule flatpak_main_invokes(1))

lemma system_main_halt:
  assumes "starts_app w"
  shows "snd (system_main tag ck w) =
           snd (flatpak_classify (run_module_as_main w (flatpak_app_module_name ck w)))"
  using assms by (simp add: system_main_invokes(1) same_classify same_app_module_name)

lemma uncaught_error_sel:
  "exc_value uncaught_error = OtherError"
  "exc_traceback uncaught_error = Some ''Traceback (most recent call last):''"
  "exc_str uncaught_error = ''ValueError: bad''"
  by (simp_all add: uncaught_error_def)

subsection \<open>Uncaught errors\<close>

text \<open>
  Claim C2, as amended. In every run in which the entry module ends with an uncaught
  error that is no exit request, both launchers print the line "Application quit
  abnormally", restore the error, have \<^verbatim>\<open>PyErr_Print\<close> write the traceback and the error
  to standard error, and then call \<^verbatim>\<open>exit\<close> with the fixed code \<open>-6\<close>, which is not
  zero. The amended claim does not say that no exit request gives this code.
\<close>

theorem uncaught_error_code:
  assumes "starts_app w"
    and "run_module_as_main w (flatpak_app_module_name ck w) = Raised e"
    and "exc_value e = OtherError"
    and "exc_traceback e = Some tb"
  shows "snd (flatpak_main ck w) = Exit (- 6) \<and>
         snd (system_main tag ck w) = Exit (- 6) \<and>
         after_call (fst (flatpak_main ck w)) =
           [Printf ''Application quit abnormally (Exit code %d)!\<newline>'' [Arg_d (- 6)],
            Call_PyErr_Restore, Call_PyErr_Print, Stderr (tb @ exc_str e)] \<and>
         after_call (fst (system_main tag ck w)) = after_call (fst (flatpak_main ck w))"
  using assms
  by (simp add: flatpak_main_halt system_main_halt flatpak_after_call system_after_call
      classify_uncaught)

theorem uncaught_error_code_witness:
  "starts_app (example_world None (Raised uncaught_error)) \<and>
   exit_code (snd (flatpak_main example_cookiecutter
      (example_world None (Raised uncaught_error)))) = - 6 \<and>
   exit_code (snd (system_main ''3.11'' example_cookiecutter
      (example_world None (Raised uncaught_error)))) = - 6 \<and>
   last (after_call (fst (flatpak_main example_cookiecutter
      (example_world None (Raised uncaught_error))))) =
     Stderr ''Traceback (most recent call last):ValueError: bad''"
  using uncaught_error_code [of "example_world None (Raised uncaught_error)"
      example_cookiecutter uncaught_error "''Traceback (most recent call last):''" "''3.11''"]
  by (simp add: starts_app_example example_world_sel uncaught_error_sel)

text \<open>
  Claim C2 as stated fails: the code \<open>-6\<close> is not distinct from every code that an
  application can ask for. An entry module that raises the exit request with payload
  \<open>-6\<close> ends the process with the same code as one that ends with an uncaught error.
\<close>

theorem uncaught_error_code_counterexample:
  "exit_code (snd (flatpak_main example_cookiecutter
      (example_world None (Raised (exit_request (PyLong (- 6))))))) = - 6 \<and>
   exit_code (snd (flatpak_main example_cookiecutter
      (example_world None (Raised uncaught_error)))) = - 6"
  by (simp add: flatpak_main_halt starts_app_example example_world_sel exit_request_sel
      uncaught_error_sel flatpak_classify_def cast_int_def LONG_MIN_def LONG_MAX_def)

subsection \<open>Normal return\<close>

text \<open>
  Claim C5. In every run in which the call of the entry module returns normally, both
  launchers finalize the runtime and return \<open>0\<close> from \<^verbatim>\<open>main\<close>: the exit code of the
  process is \<open>0\<close>.
\<close>

theorem normal_return_code:
  assumes "starts_app w"
    and "run_module_as_main w (flatpak_app_module_name ck w) = Returned"
  shows "snd (flatpak_main ck w) = Return 0 \<and>
         exit_code (snd (flatpak_main ck w)) = 0 \<and>
         snd (system_main tag ck w) = Return 0 \<and>
         exit_code (snd (system_main tag ck w)) = 0"
  using assms
  by (simp add: flatpak_main_halt system_main_halt flatpak_classify_def)

theorem normal_return_code_witness:
  "starts_app (example_world None Returned) \<and>
   exit_code (snd (flatpak_main example_cookiecutter (example_world None Returned))) = 0 \<and>
   exit_code (snd (system_main ''3.11'' example_cookiecutter (example_world None Returned))) = 0"
  using normal_return_code [of "example_world None Returned" example_cookiecutter "''3.11''"]
  by (simp add: starts_app_example example_world_sel)

subsection \<open>The two variants\<close>

text \<open>
  Claim C9. The two files classify every result of the call in the same way: the same
  actions and the same end of the process. In every run that reaches the call, the two
  launchers therefore end alike and do the same after the call.
\<close>

theorem variants_classify_alike:
  "flatpak_classify r = system_classify r \<and>
   (starts_app w \<longrightarrow>
      snd (flatpak_main ck w) = snd (system_main tag ck w) \<and>
      exit_code (snd (flatpak_main ck w)) = exit_code (snd (system_main tag ck w)) \<and>
      after_call (fst (flatpak_main ck w)) = after_call (fst (system_main tag ck w)))"
  by (simp add: flatpak_main_halt system_main_halt flatpak_after_call system_after_call
      flatpak_classify_def system_classify_def)

theorem variants_classify_alike_witness:
  "starts_app (example_world None (Raised uncaught_error)) \<and>
   flatpak_classify (Raised uncaught_error) = system_classify (Raised uncaught_error) \<and>
   snd (flatpak_main example_cookiecutter (example_world None (Raised uncaught_error))) =
   snd (system_main ''3.11'' example_cookiecutter (example_world None (Raised uncaught_error)))"
  using variants_classify_alike [of "Raised uncaught_error"
      "example_world None (Raised uncaught_error)" example_cookiecutter "''3.11''"]
  by (simp add: starts_app_example)

subsection \<open>An exit request for code 0\<close>

text \<open>
  Claim C10. If the entry module raises an exit request whose payload converts to the
  integer \<open>0\<close>, each launcher does exactly what it does when the module returns
  normally: the whole run, actions and end, is the run of the world in which the call
  returns. In a run that reaches the call, the only action after the call is
  \<^verbatim>\<open>Py_Finalize\<close> (no line about an abnormal end), and \<^verbatim>\<open>main\<close> returns \<open>0\<close>.
\<close>

theorem exit_zero_like_return:
  assumes "run_module_as_main w (flatpak_app_module_name ck w) = Raised e"
    and "exc_traceback e = Some tb"
    and "exc_value e = SystemExit (Some c)"
    and "cast_int (PyLong_AsLong c) = 0"
  shows "flatpak_main ck w = flatpak_main ck (w\<lparr>run_module_as_main := (\<lambda>m. Returned)\<rparr>) \<and>
         system_main tag ck w = system_main tag ck (w\<lparr>run_module_as_main := (\<lambda>m. Returned)\<rparr>) \<and>
         (starts_app w \<longrightarrow>
            snd (flatpak_main ck w) = Return 0 \<and>
            after_call (fst (flatpak_main ck w)) = [Call_Py_Finalize] \<and>
            snd (system_main tag ck w) = Return 0 \<and>
            after_call (fst (system_main tag ck w)) = [Call_Py_Finalize])"
proof -
  have z: "computes_zero (run_module_as_main w (flatpak_app_module_name ck w))"
    using assms by simp
  have name: "flatpak_app_module_name ck (w\<lparr>run_module_as_main := (\<lambda>m. Returned)\<rparr>) =
      flatpak_app_module_name ck w"
    by (simp add: flatpak_app_module_name_def)
  have same: "flatpak_classify (run_module_as_main w (flatpak_app_module_name ck w)) =
      flatpak_classify Returned"
    using classify_zero [OF z] by (simp add: flatpak_classify_def)
  have f: "flatpak_main ck w = flatpak_main ck (w\<lparr>run_module_as_main := (\<lambda>m. Returned)\<rparr>)"
    using same by (simp add: flatpak_defs Let_def name)
  have s: "system_main tag ck w =
      system_main tag ck (w\<lparr>run_module_as_main := (\<lambda>m. Returned)\<rparr>)"
    using same
    by (simp add: system_defs Let_def name same_app_module_name same_classify
        install_path_of_def)
  have r: "starts_app w \<longrightarrow>
            snd (flatpak_main ck w) = Return 0 \<and>
            after_call (fst (flatpak_main ck w)) = [Call_Py_Finalize] \<and>
            snd (system_main tag ck w) = Return 0 \<and>
            after_call (fst (system_main tag ck w)) = [Call_Py_Finalize]"
    using classify_zero [OF z]
    by (simp add: flatpak_main_halt system_main_halt flatpak_after_call system_after_call)
  show ?thesis
    using f s r by (intro conjI)
qed

theorem exit_zero_like_return_witness:
  "starts_app (example_world None (Raised (exit_request (PyLong 0)))) \<and>
   cast_int (PyLong_AsLong (PyLong 0)) = 0 \<and>
   flatpak_main example_cookiecutter (example_world None (Raised (exit_request (PyLong 0)))) =
   flatpak_main example_cookiecutter
     ((example_world None (Raised (exit_request (PyLong 0))))
        \<lparr>run_module_as_main := (\<lambda>m. Returned)\<rparr>) \<and>
   snd (system_main ''3.11'' example_cookiecutter
      (example_world None (Raised (exit_request (PyLong 0))))) = Return 0"
proof -
  let ?w = "example_world None (Raised (exit_request (PyLong 0)))"
  have run: "run_module_as_main ?w (flatpak_app_module_name example_cookiecutter ?w) =
      Raised (exit_request (PyLong 0))"
    by (simp add: example_world_sel)
  have zero: "cast_int (PyLong_AsLong (PyLong 0)) = 0"
    by (simp add: cast_int_def LONG_MIN_def LONG_MAX_def)
  note t = exit_zero_like_return [OF run exit_request_sel(2) exit_request_sel(1) zero,
      of "''3.11''"]
  show ?thesis
    using t starts_app_example [of None "Raised (exit_request (PyLong 0))"] zero by blast
qed


subsection \<open>The entry module\<close>

lemma example_cookiecutter_sel:
  "module_name_ck example_cookiecutter = ''myapp''"
  "lib_dir example_cookiecutter = ''lib''"
  "app_name example_cookiecutter = ''myapp''"
  by (simp_all add: example_cookiecutter_def)

text \<open>
  Claim C3, as amended. If the variable \<^verbatim>\<open>BRIEFCASE_MAIN_MODULE\<close> is set, to any value
  \<open>M\<close>, the entry module is \<open>M\<close> whatever the default of the package is; if it is not
  set, the entry module is the default. In a run that reaches the call, this is the
  module that the launcher runs.
\<close>

theorem entry_module_resolution:
  "(getenv_BRIEFCASE_MAIN_MODULE w = Some M \<longrightarrow>
      flatpak_app_module_name ck w = M \<and> system_app_module_name ck w = M) \<and>
   (getenv_BRIEFCASE_MAIN_MODULE w = None \<longrightarrow>
      flatpak_app_module_name ck w = module_name_ck ck \<and>
      system_app_module_name ck w = module_name_ck ck) \<and>
   (starts_app w \<longrightarrow>
      Call_PyObject_Call (flatpak_app_module_name ck w) 0 \<in> set (fst (flatpak_main ck w)) \<and>
      Call_PyObject_Call (system_app_module_name ck w) 0 \<in> set (fst (system_main tag ck w)))"
proof -
  have "starts_app w \<Longrightarrow>
      Call_PyObject_Call (flatpak_app_module_name ck w) 0 \<in> set (fst (flatpak_main ck w))"
    using flatpak_main_invokes(2) [of w ck] by auto
  moreover have "starts_app w \<Longrightarrow>
      Call_PyObject_Call (system_app_module_name ck w) 0 \<in> set (fst (system_main tag ck w))"
    using system_main_invokes(2) [of w tag ck] by auto
  ultimately show ?thesis
    by (auto simp: flatpak_app_module_name_def system_app_module_name_def)
qed

theorem entry_module_resolution_witness:
  "starts_app (example_world (Some ''tests.smoke'') Returned) \<and>
   flatpak_app_module_name example_cookiecutter
     (example_world (Some ''tests.smoke'') Returned) = ''tests.smoke'' \<and>
   Call_PyObject_Call ''tests.smoke'' 0 \<in>
     set (fst (system_main ''3.11'' example_cookiecutter
       (example_world (Some ''tests.smoke'') Returned))) \<and>
   system_app_module_name example_cookiecutter (example_world None Returned) = ''myapp''"
  using entry_module_resolution [of "example_world (Some ''tests.smoke'') Returned"
      "''tests.smoke''" example_cookiecutter "''3.11''"]
    entry_module_resolution [of "example_world None Returned" "''''" example_cookiecutter
      "''3.11''"]
  by (auto simp: starts_app_example example_world_sel example_cookiecutter_sel)

text \<open>
  Claim C3 as stated fails for the empty value: the launcher tests the result of
  \<^verbatim>\<open>getenv\<close> against \<^verbatim>\<open>NULL\<close> only, so a variable set to the empty string gives the
  empty module name and not the default.
\<close>

theorem entry_module_empty_counterexample:
  "getenv_BRIEFCASE_MAIN_MODULE (example_world (Some '''') Returned) = Some '''' \<and>
   flatpak_app_module_name example_cookiecutter (example_world (Some '''') Returned) = '''' \<and>
   system_app_module_name example_cookiecutter (example_world (Some '''') Returned) = '''' \<and>
   module_name_ck example_cookiecutter = ''myapp''"
  by (simp add: flatpak_app_module_name_def system_app_module_name_def example_world_sel
      example_cookiecutter_sel)

subsection \<open>Search path and flags\<close>

lemma flatpak_init_configs:
  "set (init_configs (fst (flatpak_main ck w))) \<subseteq> {flatpak_config ck w}"
  by (simp add: flatpak_defs Let_def init_configs_append config_failed_proj classify_configs
      flatpak_config_def PyConfig_InitIsolatedConfig_def case_prod_beta)

lemma system_init_configs:
  "set (init_configs (fst (system_main tag ck w))) \<subseteq> {system_config tag ck w}"
  by (simp add: system_defs Let_def init_configs_append config_failed_proj classify_configs
      system_config_def PyConfig_InitIsolatedConfig_def case_prod_beta same_classify)

lemma flatpak_preinit_configs:
  "preinit_configs (fst (flatpak_main ck w)) = [\<lparr>pre_isolated = 1, utf8_mode = 1\<rparr>]"
  by (simp add: flatpak_defs Let_def preinit_configs_append config_failed_proj classify_configs
      PyPreConfig_InitIsolatedConfig_def case_prod_beta)

lemma system_preinit_configs:
  "preinit_configs (fst (system_main tag ck w)) = [\<lparr>pre_isolated = 1, utf8_mode = 1\<rparr>]"
  by (simp add: system_defs Let_def preinit_configs_append config_failed_proj classify_configs
      PyPreConfig_InitIsolatedConfig_def case_prod_beta same_classify)

lemma flatpak_initializes:
  "starts_app w \<Longrightarrow> init_configs (fst (flatpak_main ck w)) = [flatpak_config ck w]"
  by (simp add: starts_app_def flatpak_defs Let_def init_configs_append classify_configs
      flatpak_config_def PyConfig_InitIsolatedConfig_def case_prod_beta)

lemma system_initializes:
  "starts_app w \<Longrightarrow> init_configs (fst (system_main tag ck w)) = [system_config tag ck w]"
  by (simp add: starts_app_def system_defs Let_def init_configs_append classify_configs
      system_config_def PyConfig_InitIsolatedConfig_def case_prod_beta same_classify)

text \<open>
  Claim C4, as amended. Whenever a launcher calls \<^verbatim>\<open>Py_InitializeFromConfig\<close>, the
  configuration it hands over is isolated, has buffering and bytecode writing switched
  off and the search path marked as set, and its search path is, in this order: in the
  Flatpak launcher the archive of the standard library, its unpacked tree, the directory
  of compiled extensions, the third-party packages, the application code; in the
  system-package launcher the unpacked tree of the system's standard library, its
  directory of compiled extensions, the application code, the third-party packages, with
  the import of \<^verbatim>\<open>site\<close> switched off. Whenever a launcher calls \<^verbatim>\<open>Py_PreInitialize\<close>,
  the pre-configuration is isolated and has the UTF-8 mode on.
\<close>

theorem search_path_and_flags:
  "(\<forall>cfg\<in>set (init_configs (fst (flatpak_main ck w))).
      module_search_paths cfg =
        [''/app/lib/python'' @ version_tag [] ck @ ''.zip'',
         ''/app/lib/python'' @ version_tag ''.'' ck,
         ''/app/lib/python'' @ version_tag ''.'' ck @ ''/lib-dynload'',
         ''/app/briefcase/app_packages'',
         ''/app/briefcase/app''] \<and>
      isolated cfg = 1 \<and> buffered_stdio cfg = 0 \<and> write_bytecode cfg = 0 \<and>
      module_search_paths_set cfg = 1) \<and>
   (\<forall>cfg\<in>set (init_configs (fst (system_main PY_TAG ck w))).
      module_search_paths cfg =
        [''/usr/'' @ lib_dir ck @ ''/python'' @ PY_TAG,
         ''/usr/'' @ lib_dir ck @ ''/python'' @ PY_TAG @ ''/lib-dynload'',
         install_path_of w @ ''/'' @ lib_dir ck @ ''/'' @ app_name ck @ ''/app'',
         install_path_of w @ ''/'' @ lib_dir ck @ ''/'' @ app_name ck @ ''/app_packages''] \<and>
      isolated cfg = 1 \<and> buffered_stdio cfg = 0 \<and> write_bytecode cfg = 0 \<and>
      module_search_paths_set cfg = 1 \<and> site_import cfg = 0) \<and>
   (\<forall>pre\<in>set (preinit_configs (fst (flatpak_main ck w)) @
               preinit_configs (fst (system_main PY_TAG ck w))).
      pre_isolated pre = 1 \<and> utf8_mode pre = 1)"
proof -
  have f: "\<forall>cfg\<in>set (init_configs (fst (flatpak_main ck w))). cfg = flatpak_config ck w"
    using flatpak_init_configs [of ck w] by auto
  have s: "\<forall>cfg\<in>set (init_configs (fst (system_main PY_TAG ck w))).
      cfg = system_config PY_TAG ck w"
    using system_init_configs [of PY_TAG ck w] by auto
  show ?thesis
    apply (intro conjI)
    subgoal using f by (auto simp: flatpak_config_def)
    subgoal using s by (auto simp: system_config_def)
    subgoal by (simp add: flatpak_preinit_configs system_preinit_configs)
    done
qed

theorem search_path_and_flags_witness:
  "map module_search_paths
     (init_configs (fst (flatpak_main example_cookiecutter (example_world None Returned)))) =
     [[''/app/lib/python311.zip'', ''/app/lib/python3.11'', ''/app/lib/python3.11/lib-dynload'',
       ''/app/briefcase/app_packages'', ''/app/briefcase/app'']] \<and>
   map site_import
     (init_configs (fst (system_main ''3.11'' example_cookiecutter
        (example_world None Returned)))) = [0] \<and>
   map utf8_mode
     (preinit_configs (fst (flatpak_main example_cookiecutter (example_world None Returned)))) =
     [1]"
proof -
  let ?w = "example_world None Returned"
  have f: "init_configs (fst (flatpak_main example_cookiecutter ?w)) =
      [flatpak_config example_cookiecutter ?w]"
    by (simp add: flatpak_initializes starts_app_example)
  have s: "init_configs (fst (system_main ''3.11'' example_cookiecutter ?w)) =
      [system_config ''3.11'' example_cookiecutter ?w]"
    by (simp add: system_initializes starts_app_example)
  have tags: "version_tag [] example_cookiecutter = ''311''"
      "version_tag ''.'' example_cookiecutter = ''3.11''"
    by (simp_all add: version_tag_def example_cookiecutter_def)
  show ?thesis
    using search_path_and_flags [of example_cookiecutter ?w "''3.11''"] f s tags
      flatpak_preinit_configs [of example_cookiecutter ?w]
    by auto
qed

lemma install_path_example: "install_path_of (example_world env r) = ''/usr''"
  by (simp add: install_path_of_def example_world_sel dirname_def strip_slashes_def
      before_last_slash_def)

text \<open>
  Claim C4 as stated fails for the system-package launcher: it appends the application
  code before the third-party packages, so the application code is not last.
\<close>

theorem search_path_order_counterexample:
  "map module_search_paths
     (init_configs (fst (system_main ''3.11'' example_cookiecutter
        (example_world None Returned)))) =
     [[''/usr/lib/python3.11'', ''/usr/lib/python3.11/lib-dynload'', ''/usr/lib/myapp/app'',
       ''/usr/lib/myapp/app_packages'']] \<and>
   [''/usr/lib/python3.11'', ''/usr/lib/python3.11/lib-dynload'', ''/usr/lib/myapp/app'',
    ''/usr/lib/myapp/app_packages''] \<noteq>
   documented_order [''/usr/lib/python3.11''] ''/usr/lib/python3.11/lib-dynload''
     ''/usr/lib/myapp/app_packages'' ''/usr/lib/myapp/app''"
  by (simp add: system_initializes starts_app_example system_config_def install_path_example
      example_cookiecutter_sel documented_order_def)

subsection \<open>The installation root\<close>

lemma strip_slashes_nonslash:
  "s \<noteq> [] \<Longrightarrow> last s \<noteq> CHR ''/'' \<Longrightarrow> strip_slashes s = s"
  by (cases s rule: rev_cases) (simp_all add: strip_slashes_def)

lemma before_last_slash_append:
  "CHR ''/'' \<notin> set c \<Longrightarrow> before_last_slash (xs @ CHR ''/'' # c) = xs"
  by (simp add: before_last_slash_def dropWhile_append)

lemma concat_components_last:
  assumes "\<forall>c\<in>set cs. component c" "cs \<noteq> []"
  shows "concat (map (\<lambda>c. CHR ''/'' # c) cs) \<noteq> [] \<and>
         last (concat (map (\<lambda>c. CHR ''/'' # c) cs)) \<noteq> CHR ''/''"
  using assms
proof (induction cs rule: rev_induct)
  case Nil
  then show ?case by simp
next
  case (snoc c cs)
  then have "c \<noteq> []" "CHR ''/'' \<notin> set c"
    by (simp_all add: component_def)
  then show ?case
    by (cases c rule: rev_cases) auto
qed

text \<open>\<^verbatim>\<open>dirname\<close> removes the last component of a canonical path.\<close>

lemma dirname_snoc:
  assumes "\<forall>c\<in>set cs. component c" "component c"
  shows "dirname (Some (canonical (cs @ [c]))) = canonical cs"
proof -
  let ?xs = "concat (map (\<lambda>c. CHR ''/'' # c) cs)"
  have c: "c \<noteq> []" "CHR ''/'' \<notin> set c"
    using assms(2) by (simp_all add: component_def)
  have path: "canonical (cs @ [c]) = ?xs @ CHR ''/'' # c"
    by (simp add: canonical_def)
  have lastc: "last (?xs @ CHR ''/'' # c) \<noteq> CHR ''/''"
    using c by (cases c rule: rev_cases) auto
  have cut: "before_last_slash (?xs @ CHR ''/'' # c) = ?xs"
    using c(2) by (rule before_last_slash_append)
  show ?thesis
  proof (cases "cs = []")
    case True
    then show ?thesis
      using lastc cut
      by (simp add: path dirname_def canonical_def strip_slashes_def Let_def)
  next
    case False
    then have "strip_slashes ?xs = ?xs" "?xs \<noteq> []"
      using concat_components_last [OF assms(1)] strip_slashes_nonslash by auto
    then show ?thesis
      using lastc cut False
      by (simp add: path dirname_def canonical_def Let_def)
  qed
qed

lemma dirname_canonical:
  assumes "\<forall>c\<in>set cs. component c"
  shows "dirname (Some (canonical cs)) = canonical (butlast cs)"
proof (cases cs rule: rev_cases)
  case Nil
  then show ?thesis
    by (simp add: dirname_def canonical_def strip_slashes_def before_last_slash_def)
next
  case (snoc ds c)
  then show ?thesis using assms dirname_snoc [of ds c] by simp
qed

text \<open>
  Claim C6. In the system-package launcher, for every canonical location of the running
  executable, the installation root is \<^verbatim>\<open>dirname\<close> of \<^verbatim>\<open>dirname\<close> of that location,
  which is the location without its last two components (the root directory if there
  are no more than two); and the entries of the search path for the application code
  and for the third-party packages are built from this root.
\<close>

theorem install_root:
  assumes "\<forall>c\<in>set cs. component c"
    and "realpath_proc_self_exe w = Some (canonical cs)"
  shows "install_path_of w = dirname (Some (dirname (realpath_proc_self_exe w))) \<and>
         install_path_of w = canonical (butlast (butlast cs)) \<and>
         (\<forall>cfg\<in>set (init_configs (fst (system_main PY_TAG ck w))).
            module_search_paths cfg ! 2 =
              canonical (butlast (butlast cs)) @ ''/'' @ lib_dir ck @ ''/'' @ app_name ck @ ''/app'' \<and>
            module_search_paths cfg ! 3 =
              canonical (butlast (butlast cs)) @ ''/'' @ lib_dir ck @ ''/'' @ app_name ck @
                ''/app_packages'')"
proof -
  have "\<forall>c\<in>set (butlast cs). component c"
    using assms(1) by (meson in_set_butlastD)
  then have root: "install_path_of w = canonical (butlast (butlast cs))"
    using assms by (simp add: install_path_of_def dirname_canonical)
  have cfg: "\<forall>cfg\<in>set (init_configs (fst (system_main PY_TAG ck w))).
      cfg = system_config PY_TAG ck w"
    using system_init_configs [of PY_TAG ck w] by auto
  have paths: "module_search_paths (system_config PY_TAG ck w) ! 2 =
      install_path_of w @ ''/'' @ lib_dir ck @ ''/'' @ app_name ck @ ''/app''"
    "module_search_paths (system_config PY_TAG ck w) ! 3 =
      install_path_of w @ ''/'' @ lib_dir ck @ ''/'' @ app_name ck @ ''/app_packages''"
    by (simp_all add: system_config_def numeral_3_eq_3)
  show ?thesis
    using root cfg paths by (auto simp: install_path_of_def)
qed

theorem install_root_witness:
  "component ''usr'' \<and> component ''bin'' \<and> component ''myapp'' \<and>
   realpath_proc_self_exe (example_world None Returned) =
     Some (canonical [''usr'', ''bin'', ''myapp'']) \<and>
   install_path_of (example_world None Returned) = ''/usr'' \<and>
   map (\<lambda>cfg. module_search_paths cfg ! 3)
     (init_configs (fst (system_main ''3.11'' example_cookiecutter
        (example_world None Returned)))) = [''/usr/lib/myapp/app_packages'']"
proof -
  let ?w = "example_world None Returned"
  have c: "\<forall>c\<in>set [''usr'', ''bin'', ''myapp'']. component c"
    by (simp add: component_def)
  have r: "realpath_proc_self_exe ?w = Some (canonical [''usr'', ''bin'', ''myapp''])"
    by (simp add: example_world_sel canonical_def)
  have i: "init_configs (fst (system_main ''3.11'' example_cookiecutter ?w)) =
      [system_config ''3.11'' example_cookiecutter ?w]"
    by (simp add: system_initializes starts_app_example)
  show ?thesis
    using install_root [OF c r, of "''3.11''" example_cookiecutter] c r i
    by (simp add: canonical_def example_cookiecutter_sel dirname_def strip_slashes_def
        before_last_slash_def)
qed

subsection \<open>Teardown\<close>

lemma flatpak_finalize:
  "Call_Py_Finalize \<in> set (fst (flatpak_main ck w)) \<longrightarrow>
     computes_zero (run_module_as_main w (flatpak_app_module_name ck w)) \<and>
     snd (flatpak_main ck w) = Return 0 \<and>
     last (fst (flatpak_main ck w)) = Call_Py_Finalize"
  by (simp add: flatpak_defs Let_def config_failed_proj case_prod_beta classify_finalize
      classify_zero)

lemma system_finalize:
  "Call_Py_Finalize \<in> set (fst (system_main tag ck w)) \<longrightarrow>
     computes_zero (run_module_as_main w (flatpak_app_module_name ck w)) \<and>
     snd (system_main tag ck w) = Return 0 \<and>
     last (fst (system_main tag ck w)) = Call_Py_Finalize"
  by (simp add: system_defs Let_def config_failed_proj case_prod_beta classify_finalize
      classify_zero same_classify same_app_module_name)

text \<open>
  Claim C7, as amended. Each launcher calls \<^verbatim>\<open>Py_Finalize\<close> only in a run in which the
  code it computed is \<open>0\<close>, that is, when the call of the entry module returned normally
  or raised an exit request whose payload converts to \<open>0\<close>; the call is then its last
  action, and \<^verbatim>\<open>main\<close> returns \<open>0\<close> after it. In every other run the launcher ends
  without calling \<^verbatim>\<open>Py_Finalize\<close>. A run that reaches the call with such a result does
  call it.
\<close>

theorem teardown_when_zero:
  "(Call_Py_Finalize \<in> set (fst (flatpak_main ck w)) \<longrightarrow>
      computes_zero (run_module_as_main w (flatpak_app_module_name ck w)) \<and>
      snd (flatpak_main ck w) = Return 0 \<and>
      last (fst (flatpak_main ck w)) = Call_Py_Finalize) \<and>
   (Call_Py_Finalize \<in> set (fst (system_main tag ck w)) \<longrightarrow>
      computes_zero (run_module_as_main w (system_app_module_name ck w)) \<and>
      snd (system_main tag ck w) = Return 0 \<and>
      last (fst (system_main tag ck w)) = Call_Py_Finalize) \<and>
   (starts_app w \<and> computes_zero (run_module_as_main w (flatpak_app_module_name ck w)) \<longrightarrow>
      Call_Py_Finalize \<in> set (fst (flatpak_main ck w)) \<and>
      Call_Py_Finalize \<in> set (fst (system_main tag ck w)))"
proof -
  have "starts_app w \<Longrightarrow>
      computes_zero (run_module_as_main w (flatpak_app_module_name ck w)) \<Longrightarrow>
      Call_Py_Finalize \<in> set (fst (flatpak_main ck w))"
    using flatpak_main_invokes(2) [of w ck] by (auto simp: classify_zero)
  moreover have "starts_app w \<Longrightarrow>
      computes_zero (run_module_as_main w (flatpak_app_module_name ck w)) \<Longrightarrow>
      Call_Py_Finalize \<in> set (fst (system_main tag ck w))"
    using system_main_invokes(2) [of w tag ck]
    by (auto simp: classify_zero same_classify same_app_module_name)
  ultimately show ?thesis
    using flatpak_finalize [of ck w] system_finalize [of tag ck w]
    by (simp add: same_app_module_name)
qed

theorem teardown_when_zero_witness:
  "starts_app (example_world None Returned) \<and>
   computes_zero (run_module_as_main (example_world None Returned)
     (flatpak_app_module_name example_cookiecutter (example_world None Returned))) \<and>
   Call_Py_Finalize \<in>
     set (fst (flatpak_main example_cookiecutter (example_world None Returned))) \<and>
   last (fst (flatpak_main example_cookiecutter (example_world None Returned))) =
     Call_Py_Finalize \<and>
   snd (system_main ''3.11'' example_cookiecutter (example_world None Returned)) = Return 0"
  using teardown_when_zero [of example_cookiecutter "example_world None Returned" "''3.11''"]
  by (simp add: starts_app_example example_world_sel)

text \<open>
  Claim C7 as stated fails: a run whose outcome is an exit request, not a normal
  return, performs the teardown when the payload is \<open>0\<close>.
\<close>

theorem teardown_exit_zero_counterexample:
  "run_module_as_main (example_world None (Raised (exit_request (PyLong 0)))) ''myapp'' \<noteq>
     Returned \<and>
   Call_Py_Finalize \<in> set (fst (flatpak_main example_cookiecutter
     (example_world None (Raised (exit_request (PyLong 0)))))) \<and>
   Call_Py_Finalize \<in> set (fst (system_main ''3.11'' example_cookiecutter
     (example_world None (Raised (exit_request (PyLong 0))))))"
proof -
  let ?w = "example_world None (Raised (exit_request (PyLong 0)))"
  have z: "flatpak_classify (Raised (exit_request (PyLong 0))) = ([Call_Py_Finalize], Return 0)"
    by (simp add: classify_zero exit_request_sel cast_int_def LONG_MIN_def LONG_MAX_def)
  have "Call_Py_Finalize \<in> set (fst (flatpak_main example_cookiecutter ?w))"
    using flatpak_main_invokes(2) [OF starts_app_example [of None
        "Raised (exit_request (PyLong 0))"], of example_cookiecutter] z
    by (auto simp: example_world_sel)
  moreover have "Call_Py_Finalize \<in> set (fst (system_main ''3.11'' example_cookiecutter ?w))"
    using system_main_invokes(2) [OF starts_app_example [of None
        "Raised (exit_request (PyLong 0))"], of "''3.11''" example_cookiecutter] z
    by (auto simp: example_world_sel same_classify)
  ultimately show ?thesis
    by (simp add: example_world_sel)
qed


subsection \<open>Failures before the call\<close>

text \<open>Each checked call of the Flatpak launcher, failing after the ones before it succeeded.\<close>

lemma flatpak_fails:
  "PyStatus_Exception (api_status w PreInitialize) \<Longrightarrow>
     ends_in_config_failure (flatpak_main ck w) (api_status w PreInitialize)"
  "\<not> PyStatus_Exception (api_status w PreInitialize) \<Longrightarrow>
   PyStatus_Exception (api_status w SetHome) \<Longrightarrow>
     ends_in_config_failure (flatpak_main ck w) (api_status w SetHome)"
  "\<not> PyStatus_Exception (api_status w PreInitialize) \<Longrightarrow>
   \<not> PyStatus_Exception (api_status w SetHome) \<Longrightarrow>
   PyStatus_Exception (api_status w SetRunModule) \<Longrightarrow>
     ends_in_config_failure (flatpak_main ck w) (api_status w SetRunModule)"
  "\<not> PyStatus_Exception (api_status w PreInitialize) \<Longrightarrow>
   \<not> PyStatus_Exception (api_status w SetHome) \<Longrightarrow>
   \<not> PyStatus_Exception (api_status w SetRunModule) \<Longrightarrow>
   PyStatus_Exception (api_status w ReadConfig) \<Longrightarrow>
     ends_in_config_failure (flatpak_main ck w) (api_status w ReadConfig)"
  "\<not> PyStatus_Exception (api_status w PreInitialize) \<Longrightarrow>
   \<not> PyStatus_Exception (api_status w SetHome) \<Longrightarrow>
   \<not> PyStatus_Exception (api_status w SetRunModule) \<Longrightarrow>
   \<not> PyStatus_Exception (api_status w ReadConfig) \<Longrightarrow>
   PyStatus_Exception (api_status w (AppendPath (''/app/lib/python'' @ version_tag [] ck @ ''.zip''))) \<Longrightarrow>
     ends_in_config_failure (flatpak_main ck w) (api_status w (AppendPath (''/app/lib/python'' @ version_tag [] ck @ ''.zip'')))"
  "\<not> PyStatus_Exception (api_status w PreInitialize) \<Longrightarrow>
   \<not> PyStatus_Exception (api_status w SetHome) \<Longrightarrow>
   \<not> PyStatus_Exception (api_status w SetRunModule) \<Longrightarrow>
   \<not> PyStatus_Exception (api_status w ReadConfig) \<Longrightarrow>
   \<not> PyStatus_Exception (api_status w (AppendPath (''/app/lib/python'' @ version_tag [] ck @ ''.zip''))) \<Longrightarrow>
   PyStatus_Exception (api_status w (AppendPath (''/app/lib/python'' @ version_tag ''.'' ck))) \<Longrightarrow>
     ends_in_config_failure (flatpak_main ck w) (api_status w (AppendPath (''/app/lib/python'' @ version_tag ''.'' ck)))"
  "\<not> PyStatus_Exception (api_status w PreInitialize) \<Longrightarrow>
   \<not> PyStatus_Exception (api_status w SetHome) \<Longrightarrow>
   \<not> PyStatus_Exception (api_status w SetRunModule) \<Longrightarrow>
   \<not> PyStatus_Exception (api_status w ReadConfig) \<Longrightarrow>
   \<not> PyStatus_Exception (api_status w (AppendPath (''/app/lib/python'' @ version_tag [] ck @ ''.zip''))) \<Longrightarrow>
   \<not> PyStatus_Exception (api_status w (AppendPath (''/app/lib/python'' @ version_tag ''.'' ck))) \<Longrightarrow>
   PyStatus_Exception (api_status w (AppendPath (''/app/lib/python'' @ version_tag ''.'' ck @ ''/lib-dynload''))) \<Longrightarrow>
     ends_in_config_failure (flatpak_main ck w) (api_status w (AppendPath (''/app/lib/python'' @ version_tag ''.'' ck @ ''/lib-dynload'')))"
  "\<not> PyStatus_Exception (api_status w PreInitialize) \<Longrightarrow>
   \<not> PyStatus_Exception (api_status w SetHome) \<Longrightarrow>
   \<not> PyStatus_Exception (api_status w SetRunModule) \<Longrightarrow>
   \<not> PyStatus_Exception (api_status w ReadConfig) \<Longrightarrow>
   \<not> PyStatus_Exception (api_status w (AppendPath (''/app/lib/python'' @ version_tag [] ck @ ''.zip''))) \<Longrightarrow>
   \<not> PyStatus_Exception (api_status w (AppendPath (''/app/lib/python'' @ version_tag ''.'' ck))) \<Longrightarrow>
   \<not> PyStatus_Exception (api_status w (AppendPath (''/app/lib/python'' @ version_tag ''.'' ck @ ''/lib-dynload''))) \<Longrightarrow>
   PyStatus_Exception (api_status w (AppendPath ''/app/briefcase/app_packages'')) \<Longrightarrow>
     ends_in_config_failure (flatpak_main ck w) (api_status w (AppendPath ''/app/briefcase/app_packages''))"
  "\<not> PyStatus_Exception (api_status w PreInitialize) \<Longrightarrow>
   \<not> PyStatus_Exception (api_status w SetHome) \<Longrightarrow>
   \<not> PyStatus_Exception (api_status w SetRunModule) \<Longrightarrow>
   \<not> PyStatus_Exception (api_status w ReadConfig) \<Longrightarrow>
   \<not> PyStatus_Exception (api_status w (AppendPath (''/app/lib/python'' @ version_tag [] ck @ ''.zip''))) \<Longrightarrow>
   \<not> PyStatus_Exception (api_status w (AppendPath (''/app/lib/python'' @ version_tag ''.'' ck))) \<Longrightarrow>
   \<not> PyStatus_Exception (api_status w (AppendPath (''/app/lib/python'' @ version_tag ''.'' ck @ ''/lib-dynload''))) \<Longrightarrow>
   \<not> PyStatus_Exception (api_status w (AppendPath ''/app/briefcase/app_packages'')) \<Longrightarrow>
   PyStatus_Exception (api_status w (AppendPath ''/app/briefcase/app'')) \<Longrightarrow>
     ends_in_config_failure (flatpak_main ck w) (api_status w (AppendPath ''/app/briefcase/app''))"
  "\<not> PyStatus_Exception (api_status w PreInitialize) \<Longrightarrow>
   \<not> PyStatus_Exception (api_status w SetHome) \<Longrightarrow>
   \<not> PyStatus_Exception (api_status w SetRunModule) \<Longrightarrow>
   \<not> PyStatus_Exception (api_status w ReadConfig) \<Longrightarrow>
   \<not> PyStatus_Exception (api_status w (AppendPath (''/app/lib/python'' @ version_tag [] ck @ ''.zip''))) \<Longrightarrow>
   \<not> PyStatus_Exception (api_status w (AppendPath (''/app/lib/python'' @ version_tag ''.'' ck))) \<Longrightarrow>
   \<not> PyStatus_Exception (api_status w (AppendPath (''/app/lib/python'' @ version_tag ''.'' ck @ ''/lib-dynload''))) \<Longrightarrow>
   \<not> PyStatus_Exception (api_status w (AppendPath ''/app/briefcase/app_packages'')) \<Longrightarrow>
   \<not> PyStatus_Exception (api_status w (AppendPath ''/app/briefcase/app'')) \<Longrightarrow>
   PyStatus_Exception (api_status w SetArgv) \<Longrightarrow>
     ends_in_config_failure (flatpak_main ck w) (api_status w SetArgv)"
  "\<not> PyStatus_Exception (api_status w PreInitialize) \<Longrightarrow>
   \<not> PyStatus_Exception (api_status w SetHome) \<Longrightarrow>
   \<not> PyStatus_Exception (api_status w SetRunModule) \<Longrightarrow>
   \<not> PyStatus_Exception (api_status w ReadConfig) \<Longrightarrow>
   \<not> PyStatus_Exception (api_status w (AppendPath (''/app/lib/python'' @ version_tag [] ck @ ''.zip''))) \<Longrightarrow>
   \<not> PyStatus_Exception (api_status w (AppendPath (''/app/lib/python'' @ version_tag ''.'' ck))) \<Longrightarrow>
   \<not> PyStatus_Exception (api_status w (AppendPath (''/app/lib/python'' @ version_tag ''.'' ck @ ''/lib-dynload''))) \<Longrightarrow>
   \<not> PyStatus_Exception (api_status w (AppendPath ''/app/briefcase/app_packages'')) \<Longrightarrow>
   \<not> PyStatus_Exception (api_status w (AppendPath ''/app/briefcase/app'')) \<Longrightarrow>
   \<not> PyStatus_Exception (api_status w SetArgv) \<Longrightarrow>
   PyStatus_Exception (api_status w InitializeFromConfig) \<Longrightarrow>
     ends_in_config_failure (flatpak_main ck w) (api_status w InitializeFromConfig)"
  by (simp_all add: ends_in_config_failure_def flatpak_defs Let_def config_failed_proj)

lemma flatpak_first_failure:
  assumes "find (\<lambda>s. PyStatus_Exception (api_status w s)) (flatpak_config_steps ck) = Some s"
  shows "ends_in_config_failure (flatpak_main ck w) (api_status w s)"
  using assms
  by (auto simp: flatpak_config_steps_def flatpak_fails [simplified] split: if_splits)

lemma flatpak_setup_failure:
  assumes "find (\<lambda>s. PyStatus_Exception (api_status w s)) (flatpak_config_steps ck) = None"
  shows "(\<not> created w ImportRunpy \<longrightarrow> snd (flatpak_main ck w) = Exit (- 2)) \<and>
     (created w ImportRunpy \<and> \<not> created w GetRunModuleAsMain \<longrightarrow>
        snd (flatpak_main ck w) = Exit (- 3)) \<and>
     (created w ImportRunpy \<and> created w GetRunModuleAsMain \<and>
      created w ModuleNameFromString \<and> \<not> created w BuildArgs \<longrightarrow>
        snd (flatpak_main ck w) = Exit (- 4))"
proof -
  have "\<forall>s\<in>set (flatpak_config_steps ck). \<not> PyStatus_Exception (api_status w s)"
    using assms by (simp add: find_None_iff)
  then show ?thesis
    by (simp add: flatpak_config_steps_def flatpak_defs Let_def)
qed

text \<open>
  Claim C8, as amended, for the Flatpak launcher. When a checked configuration call
  (pre-initialisation, home, entry module, reading the configuration, each append to the
  search path, arguments, initialisation) is the first to fail, the launcher releases
  the configuration with \<^verbatim>\<open>PyConfig_Clear\<close> and ends in \<^verbatim>\<open>Py_ExitStatusException\<close> with
  the status of that call, which prints the message of an error status and exits with
  the code the status carries; the application is not called. When all of them succeed
  and the import of \<^verbatim>\<open>runpy\<close> fails, the launcher exits with \<open>-2\<close>; when the look-up of
  \<^verbatim>\<open>_run_module_as_main\<close> fails, with \<open>-3\<close>; when the arguments cannot be built, with
  \<open>-4\<close>.
\<close>

theorem config_failure_policy:
  "(find (\<lambda>s. PyStatus_Exception (api_status w s)) (flatpak_config_steps ck) = Some s \<longrightarrow>
      snd (flatpak_main ck w) = ExitStatusException (api_status w s) \<and>
      Call_PyConfig_Clear \<in> set (fst (flatpak_main ck w)) \<and>
      last (fst (flatpak_main ck w)) =
        (case api_status w s of PyStatus_Error msg \<Rightarrow> Stderr msg | _ \<Rightarrow> Call_PyConfig_Clear) \<and>
      (\<forall>m i. Call_PyObject_Call m i \<notin> set (fst (flatpak_main ck w)))) \<and>
   (find (\<lambda>s. PyStatus_Exception (api_status w s)) (flatpak_config_steps ck) = None \<longrightarrow>
      (\<not> created w ImportRunpy \<longrightarrow> snd (flatpak_main ck w) = Exit (- 2)) \<and>
      (created w ImportRunpy \<and> \<not> created w GetRunModuleAsMain \<longrightarrow>
         snd (flatpak_main ck w) = Exit (- 3)) \<and>
      (created w ImportRunpy \<and> created w GetRunModuleAsMain \<and>
       created w ModuleNameFromString \<and> \<not> created w BuildArgs \<longrightarrow>
         snd (flatpak_main ck w) = Exit (- 4)))"
  using flatpak_first_failure [of w ck s] flatpak_setup_failure [of w ck]
  unfolding ends_in_config_failure_def
  by blast

lemma failing_world_sel:
  "api_status (failing_world step st) s = (if s = step then st else PyStatus_Ok)"
  "created (failing_world step st) x = True"
  by (simp_all add: failing_world_def example_world_def)

lemma missing_world_sel:
  "api_status (missing_world step) s = PyStatus_Ok"
  "created (missing_world step) x = (x \<noteq> step)"
  "getenv_BRIEFCASE_MAIN_MODULE (missing_world step) = None"
  by (simp_all add: missing_world_def example_world_def)

theorem config_failure_policy_witness:
  "find (\<lambda>s. PyStatus_Exception (api_status (failing_world SetArgv (PyStatus_Error ''no memory'')) s))
     (flatpak_config_steps example_cookiecutter) = Some SetArgv \<and>
   snd (flatpak_main example_cookiecutter (failing_world SetArgv (PyStatus_Error ''no memory''))) =
     ExitStatusException (PyStatus_Error ''no memory'') \<and>
   last (fst (flatpak_main example_cookiecutter
     (failing_world SetArgv (PyStatus_Error ''no memory'')))) = Stderr ''no memory'' \<and>
   find (\<lambda>s. PyStatus_Exception (api_status (missing_world ImportRunpy) s))
     (flatpak_config_steps example_cookiecutter) = None \<and>
   snd (flatpak_main example_cookiecutter (missing_world ImportRunpy)) = Exit (- 2) \<and>
   snd (flatpak_main example_cookiecutter (missing_world GetRunModuleAsMain)) = Exit (- 3) \<and>
   snd (flatpak_main example_cookiecutter (missing_world BuildArgs)) = Exit (- 4)"
  using config_failure_policy [of "failing_world SetArgv (PyStatus_Error ''no memory'')"
      example_cookiecutter SetArgv]
    config_failure_policy [of "missing_world ImportRunpy" example_cookiecutter SetArgv]
    config_failure_policy [of "missing_world GetRunModuleAsMain" example_cookiecutter SetArgv]
    config_failure_policy [of "missing_world BuildArgs" example_cookiecutter SetArgv]
  by (simp add: failing_world_sel missing_world_sel flatpak_config_steps_def)

text \<open>
  Claim C8 as stated fails. Two distinct failures, the look-up of
  \<^verbatim>\<open>_run_module_as_main\<close> and the conversion of the module name, end with the same code
  \<open>-3\<close>. When the import of \<^verbatim>\<open>runpy\<close> fails the launcher calls \<^verbatim>\<open>exit\<close> at once: it
  does not release the configuration, and its last output is the line "Running app
  module", no diagnostic. And the code after a failed configuration step is the one of
  the status, not one of the step: two different steps that fail with the same error
  status end with the same code.
\<close>

theorem config_failure_policy_counterexample:
  "snd (flatpak_main example_cookiecutter (missing_world GetRunModuleAsMain)) = Exit (- 3) \<and>
   snd (flatpak_main example_cookiecutter (missing_world ModuleNameFromString)) = Exit (- 3) \<and>
   Call_PyConfig_Clear \<notin> set (fst (flatpak_main example_cookiecutter (missing_world ImportRunpy))) \<and>
   last (fst (flatpak_main example_cookiecutter (missing_world ImportRunpy))) =
     Printf ''Running app module: %s\<newline>'' [Arg_s ''myapp''] \<and>
   exit_code (snd (flatpak_main example_cookiecutter
     (failing_world SetHome (PyStatus_Error ''no memory'')))) = 1 \<and>
   exit_code (snd (flatpak_main example_cookiecutter
     (failing_world SetArgv (PyStatus_Error ''no memory'')))) = 1"
  by (simp add: flatpak_defs Let_def config_failed_proj failing_world_sel missing_world_sel
      flatpak_app_module_name_def example_cookiecutter_sel)


end
